theory Spec2Isabelle
  imports Complex_Main "HOL-Library.AList"
begin

section \<open>The loop-vectorisation environment of \<open>rl_env.py\<close>\<close>

text \<open>
  \<open>LoopVectorizeEnv\<close> is a gym environment: it loads per-loop features from
  \<open>loop_features.json\<close>, writes the decoded actions to \<open>loop_actions.json\<close>, drives
  \<open>opt\<close>, \<open>opt -loop-vectorize\<close> and \<open>clang\<close> as child processes, runs the binary under
  a wall clock and rewards the time saved against a baseline measured at construction.

  The embedding is shallow. The object is a record that every method takes and returns;
  everything outside the process (the two JSON files, the child processes and the clock)
  is a second record, \<open>world\<close>, threaded through the methods that touch it. An exception
  is a value \<open>Inl e\<close>; since a Python exception leaves behind the assignments and the writes
  made before it, every method returns the state next to its result, also when it raises.

  Modelling boundaries:
  \<^item> a Python \<open>float\<close> (the clock readings, \<open>baseline_time\<close>, the reward) is the real number
    it denotes, and \<open>-\<close> on them is exact;
  \<^item> an integer too large for a double makes \<open>float\<close> and \<open>np.array\<close> raise
    \<open>OverflowError\<close>, and the model raises with them; below that limit the rounding to
    \<open>np.float32\<close> is a parameter \<open>f32\<close> of the methods that build observations, so nothing
    is assumed about it;
  \<^item> a feature record is a JSON object whose \<open>loop_id\<close> is a string and whose counts are
    integers, each key possibly absent; JSON of another shape is not modelled;
  \<^item> the gym spaces are kept as data, and their constructors are taken not to raise;
  \<^item> \<open>print\<close> is not modelled.
\<close>

subsection \<open>Values\<close>

type_synonym cmd = "string list"

datatype py_error =
    FileNotFoundError
  | JSONDecodeError
  | IndexError
  | KeyError string
  | ValueError
  | TypeError
  | OverflowError
  | CalledProcessError int cmd

text \<open>The class of an exception, which is what an \<open>except\<close> clause selects on.\<close>

fun error_kind :: "py_error \<Rightarrow> string" where
  "error_kind FileNotFoundError = ''FileNotFoundError''"
| "error_kind JSONDecodeError = ''JSONDecodeError''"
| "error_kind IndexError = ''IndexError''"
| "error_kind (KeyError k) = ''KeyError''"
| "error_kind ValueError = ''ValueError''"
| "error_kind TypeError = ''TypeError''"
| "error_kind OverflowError = ''OverflowError''"
| "error_kind (CalledProcessError rc c) = ''CalledProcessError''"

datatype jval = JBool bool | JInt int

text \<open>A directive is a one-key dict, \<open>{"disable": True}\<close> or \<open>{"width": n}\<close>; the action map is
  a dict from \<open>loop_id\<close> to directive. Both keep insertion order, as Python dicts and
  \<open>json.dump\<close> do: \<open>AList.update\<close> overwrites in place or appends.\<close>

type_synonym directive = "(string \<times> jval) list"
type_synonym act_map = "(string \<times> directive) list"

record loop =
  loop_id :: "string option"
  num_blocks :: "int option"
  num_loads :: "int option"
  num_stores :: "int option"
  num_arith :: "int option"
  num_calls :: "int option"
  trip_count_est :: "int option"

text \<open>An action as the caller passes it: an integer, or a sequence of integers.\<close>

datatype action = Scalar int | Vector "int list"

datatype space = Discrete nat | MultiDiscrete "nat list" | Box real real nat

subsection \<open>The world outside the process\<close>

text \<open>
  \<open>features_file\<close> is what \<open>open\<close> and \<open>json.load\<close> make of \<open>loop_features.json\<close>;
  \<open>actions_file\<close> is the content of \<open>loop_actions.json\<close>, \<open>None\<close> when the file does not exist.
  \<open>exit_status k\<close> is the exit status of the \<open>k\<close>-th child process started and \<open>clock k\<close> the
  \<open>k\<close>-th reading of \<open>time.time()\<close>: any run of the program is some choice of the two.
  \<open>launched\<close> logs every child process started, with the content of \<open>loop_actions.json\<close> at
  that moment (what the pass plugin can read); \<open>clock_reads\<close> counts the readings taken.
  The intermediate files and the binary are written by the child processes only, so the
  log determines them. The child processes are taken not to write \<open>loop_actions.json\<close>.
\<close>

record world =
  features_file :: "py_error + loop list"
  actions_file :: "act_map option"
  exit_status :: "nat \<Rightarrow> int"
  clock :: "nat \<Rightarrow> real"
  launched :: "(cmd \<times> act_map option) list"
  clock_reads :: nat

text \<open>\<open>subprocess.check_call\<close>: start the process, wait, raise on a non-zero exit status.\<close>

definition check_call :: "cmd \<Rightarrow> world \<Rightarrow> (py_error + unit) \<times> world" where
  "check_call c w =
     (let rc = exit_status w (length (launched w));
          w' = w\<lparr>launched := launched w @ [(c, actions_file w)]\<rparr>
      in (if rc = 0 then Inr () else Inl (CalledProcessError rc c), w'))"

definition time_time :: "world \<Rightarrow> real \<times> world" where
  "time_time w = (clock w (clock_reads w), w\<lparr>clock_reads := Suc (clock_reads w)\<rparr>)"

subsection \<open>The toolchain: \<open>run_binary\<close>\<close>

definition cmd_pass :: "string \<Rightarrow> cmd" where
  "cmd_pass ir = [''opt'', ''-load-pass-plugin=./LoopRLOpt.so'', ''-passes=loop-rl-opt'',
                  ir, ''-S'', ''-o'', ''tmp_opt.ll'']"

definition cmd_vec :: cmd where
  "cmd_vec = [''opt'', ''-loop-vectorize'', ''tmp_opt.ll'', ''-S'', ''-o'', ''tmp_vec.ll'']"

definition cmd_clang :: "string \<Rightarrow> cmd" where
  "cmd_clang bp = [''clang'', ''tmp_vec.ll'', ''-O3'', ''-o'', bp]"

definition cmd_run :: "string \<Rightarrow> cmd" where
  "cmd_run bp = [''./'' @ bp]"

text \<open>\<open>run_binary\<close> reads \<open>self.binary_path\<close> and nothing else of the object, so the model
  takes the path (the constructor calls it before the object is complete). The \<open>try\<close> around
  the first call prints and re-raises.\<close>

definition run_binary :: "string \<Rightarrow> string \<Rightarrow> string \<Rightarrow> world \<Rightarrow> (py_error + real) \<times> world" where
  "run_binary bp ir tag w =
     (case check_call (cmd_pass ir) w of
        (Inl e, w1) \<Rightarrow> (Inl e, w1)
      | (Inr u1, w1) \<Rightarrow>
     (case check_call cmd_vec w1 of
        (Inl e, w2) \<Rightarrow> (Inl e, w2)
      | (Inr u2, w2) \<Rightarrow>
     (case check_call (cmd_clang bp) w2 of
        (Inl e, w3) \<Rightarrow> (Inl e, w3)
      | (Inr u3, w3) \<Rightarrow>
     (case time_time w3 of (t0, w4) \<Rightarrow>
     (case check_call (cmd_run bp) w4 of
        (Inl e, w5) \<Rightarrow> (Inl e, w5)
      | (Inr u4, w5) \<Rightarrow>
     (case time_time w5 of (t1, w6) \<Rightarrow>
        (Inr (t1 - t0), w6)))))))"

subsection \<open>The environment object\<close>

record env =
  ir_path :: string
  binary_path :: string
  single_loop_mode :: bool
  loops :: "loop list"
  n_loops :: nat
  obs_dim :: nat
  action_space :: space
  observation_space :: space
  baseline_time :: real
  current_loop_idx :: nat

text \<open>\<open>__init__\<close>: load the features, set up the spaces, measure the baseline, set the cursor.
  Nothing is written to \<open>loop_actions.json\<close> before the baseline run.\<close>

definition init :: "string \<Rightarrow> string \<Rightarrow> bool \<Rightarrow> world \<Rightarrow> (py_error + env) \<times> world" where
  "init ir bp slm w =
     (case features_file w of
        Inl e \<Rightarrow> (Inl e, w)
      | Inr ls \<Rightarrow>
          (let n = length ls;
               d = 6;
               asp = (if slm then Discrete 4 else MultiDiscrete (replicate n 4));
               osp = (if slm then Box (- 1000000000) 1000000000 d
                      else Box (- 1000000000) 1000000000 (n * d))
           in case run_binary bp ir ''baseline'' w of
                (Inl e, w') \<Rightarrow> (Inl e, w')
              | (Inr t, w') \<Rightarrow>
                  (Inr \<lparr>ir_path = ir, binary_path = bp, single_loop_mode = slm, loops = ls,
                        n_loops = n, obs_dim = d, action_space = asp, observation_space = osp,
                        baseline_time = t, current_loop_idx = 0\<rparr>, w')))"

subsection \<open>Observations\<close>

text \<open>\<open>loop.get(key, default)\<close>.\<close>

definition get_default :: "'a option \<Rightarrow> 'a \<Rightarrow> 'a" where
  "get_default v d = (case v of None \<Rightarrow> d | Some x \<Rightarrow> x)"

text \<open>Converting an integer to a double, as \<open>float(n)\<close> does and as \<open>np.array\<close> does for
  each integer entry: the conversion rounds to nearest, so it raises from the first integer
  that rounds to \<open>2 ^ 1024\<close>, which is \<open>2 ^ 1024 - 2 ^ 970\<close>.\<close>

definition float_limit :: int where
  "float_limit = 2 ^ 1024 - 2 ^ 970"

definition py_float :: "int \<Rightarrow> py_error + real" where
  "py_float n = (if \<bar>n\<bar> < float_limit then Inr (of_int n) else Inl OverflowError)"

text \<open>The entries handed to \<open>np.array\<close> are Python integers or Python floats;
  \<open>dtype=np.float32\<close> converts each in turn, an integer through a double.\<close>

datatype pynum = PyInt int | PyFloat real

fun np_array :: "(real \<Rightarrow> 'f) \<Rightarrow> pynum list \<Rightarrow> py_error + 'f list" where
  "np_array f32 [] = Inr []"
| "np_array f32 (PyFloat r # xs) =
     (case np_array f32 xs of Inl e \<Rightarrow> Inl e | Inr ys \<Rightarrow> Inr (f32 r # ys))"
| "np_array f32 (PyInt n # xs) =
     (case py_float n of
        Inl e \<Rightarrow> Inl e
      | Inr r \<Rightarrow> (case np_array f32 xs of Inl e \<Rightarrow> Inl e | Inr ys \<Rightarrow> Inr (f32 r # ys)))"

text \<open>\<open>_feature_to_obs\<close>: the five counts go into the array as they are, the trip count
  through \<open>float\<close>.\<close>

definition feature_to_obs :: "(real \<Rightarrow> 'f) \<Rightarrow> loop \<Rightarrow> py_error + 'f list" where
  "feature_to_obs f32 l =
     (let tri = get_default (trip_count_est l) (- 1)
      in case py_float tri of
           Inl e \<Rightarrow> Inl e
         | Inr t \<Rightarrow>
             np_array f32 [PyInt (get_default (num_blocks l) 0), PyInt (get_default (num_loads l) 0),
                           PyInt (get_default (num_stores l) 0), PyInt (get_default (num_arith l) 0),
                           PyInt (get_default (num_calls l) 0), PyFloat t])"

text \<open>The loop \<open>for loop in self.loops: allobs.append(self._feature_to_obs(loop))\<close>.\<close>

fun obs_all :: "(real \<Rightarrow> 'f) \<Rightarrow> loop list \<Rightarrow> py_error + 'f list list" where
  "obs_all f32 [] = Inr []"
| "obs_all f32 (l # ls) =
     (case feature_to_obs f32 l of
        Inl e \<Rightarrow> Inl e
      | Inr ob \<Rightarrow> (case obs_all f32 ls of Inl e \<Rightarrow> Inl e | Inr obss \<Rightarrow> Inr (ob # obss)))"

text \<open>\<open>xs[i]\<close> for a cursor that is never negative; \<open>np.concatenate\<close>, which refuses an
  empty sequence of arrays; \<open>np.zeros\<close>.\<close>

definition py_index :: "'a list \<Rightarrow> nat \<Rightarrow> py_error + 'a" where
  "py_index xs i = (if i < length xs then Inr (xs ! i) else Inl IndexError)"

definition np_concatenate :: "'a list list \<Rightarrow> py_error + 'a list" where
  "np_concatenate xss = (if xss = [] then Inl ValueError else Inr (concat xss))"

definition np_zeros :: "(real \<Rightarrow> 'f) \<Rightarrow> nat \<Rightarrow> 'f list" where
  "np_zeros f32 n = replicate n (f32 0)"

definition reset :: "(real \<Rightarrow> 'f) \<Rightarrow> env \<Rightarrow> (py_error + 'f list) \<times> env" where
  "reset f32 e =
     (let e' = e\<lparr>current_loop_idx := 0\<rparr>
      in if single_loop_mode e' then
           (case py_index (loops e') (current_loop_idx e') of
              Inl err \<Rightarrow> (Inl err, e')
            | Inr l \<Rightarrow>
                (case feature_to_obs f32 l of
                   Inl err \<Rightarrow> (Inl err, e')
                 | Inr ob \<Rightarrow> (Inr ob, e')))
         else
           (case obs_all f32 (loops e') of
              Inl err \<Rightarrow> (Inl err, e')
            | Inr allobs \<Rightarrow>
                (case np_concatenate allobs of
                   Inl err \<Rightarrow> (Inl err, e')
                 | Inr ob \<Rightarrow> (Inr ob, e'))))"

subsection \<open>Actions and \<open>step\<close>\<close>

text \<open>\<open>action_to_metadata\<close>. A sequence compares unequal to each of 0, 1, 2, 3, so it
  falls through to the last branch.\<close>

fun action_to_metadata :: "action \<Rightarrow> directive" where
  "action_to_metadata (Scalar a) =
     (if a = 0 then [(''disable'', JBool True)]
      else if a = 1 then [(''width'', JInt 2)]
      else if a = 2 then [(''width'', JInt 4)]
      else if a = 3 then [(''width'', JInt 8)]
      else [(''disable'', JBool True)])"
| "action_to_metadata (Vector v) = [(''disable'', JBool True)]"

text \<open>\<open>loop["loop_id"]\<close>.\<close>

definition get_loop_id :: "loop \<Rightarrow> py_error + string" where
  "get_loop_id l = (case loop_id l of None \<Rightarrow> Inl (KeyError ''loop_id'') | Some k \<Rightarrow> Inr k)"

text \<open>The loop \<open>for idx, a in enumerate(action)\<close> of whole-program mode, from position
  \<open>idx\<close> with the map built so far.\<close>

fun build_act_map :: "loop list \<Rightarrow> nat \<Rightarrow> int list \<Rightarrow> act_map \<Rightarrow> py_error + act_map" where
  "build_act_map ls idx [] m = Inr m"
| "build_act_map ls idx (a # as) m =
     (case py_index ls idx of
        Inl err \<Rightarrow> Inl err
      | Inr l \<Rightarrow>
          (case get_loop_id l of
             Inl err \<Rightarrow> Inl err
           | Inr k \<Rightarrow> build_act_map ls (Suc idx) as (AList.update k (action_to_metadata (Scalar a)) m)))"

text \<open>\<open>with open("loop_actions.json","w") as f: json.dump(act_map, f)\<close>.\<close>

definition write_actions :: "act_map \<Rightarrow> world \<Rightarrow> world" where
  "write_actions m w = w\<lparr>actions_file := Some m\<rparr>"

record 'f step_result =
  obs :: "'f list"
  reward :: real
  is_done :: bool
  info :: "(string \<times> real) list"

definition step :: "(real \<Rightarrow> 'f) \<Rightarrow> env \<Rightarrow> action \<Rightarrow> world \<Rightarrow> (py_error + 'f step_result) \<times> env \<times> world" where
  "step f32 e act w =
     (if single_loop_mode e then
        (let idx = current_loop_idx e in
         case py_index (loops e) idx of
           Inl err \<Rightarrow> (Inl err, e, w)
         | Inr l \<Rightarrow>
        (case get_loop_id l of
           Inl err \<Rightarrow> (Inl err, e, w)
         | Inr k \<Rightarrow>
        (let act_map = AList.update k (action_to_metadata act) [];
             w1 = write_actions act_map w
         in case run_binary (binary_path e) (ir_path e) ''trial'' w1 of
              (Inl err, w2) \<Rightarrow> (Inl err, e, w2)
            | (Inr t, w2) \<Rightarrow>
                (let rew = baseline_time e - t;
                     dn = True;
                     inf = [(''runtime'', t)];
                     e1 = e\<lparr>current_loop_idx := current_loop_idx e + 1\<rparr>
                 in if \<not> dn then
                      (case reset f32 e1 of
                         (Inl err, e2) \<Rightarrow> (Inl err, e2, w2)
                       | (Inr ob, e2) \<Rightarrow>
                           (Inr \<lparr>obs = ob, reward = rew, is_done = dn, info = inf\<rparr>, e2, w2))
                    else (Inr \<lparr>obs = np_zeros f32 (obs_dim e1), reward = rew, is_done = dn,
                               info = inf\<rparr>, e1, w2)))))
      else
        (case act of
           Scalar a \<Rightarrow> (Inl TypeError, e, w)
         | Vector v \<Rightarrow>
        (case build_act_map (loops e) 0 v [] of
           Inl err \<Rightarrow> (Inl err, e, w)
         | Inr act_map \<Rightarrow>
        (let w1 = write_actions act_map w
         in case run_binary (binary_path e) (ir_path e) ''trial'' w1 of
              (Inl err, w2) \<Rightarrow> (Inl err, e, w2)
            | (Inr t, w2) \<Rightarrow>
                (let rew = baseline_time e - t;
                     dn = True;
                     inf = [(''runtime'', t)]
                 in (Inr \<lparr>obs = np_zeros f32 (n_loops e * obs_dim e), reward = rew, is_done = dn,
                          info = inf\<rparr>, e, w2))))))"

subsection \<open>Reachable states\<close>

text \<open>The objects a caller can hold: the result of a construction that did not raise,
  and whatever \<open>reset\<close> and \<open>step\<close> leave behind, whether they raise or not.\<close>

inductive reachable :: "(real \<Rightarrow> 'f) \<Rightarrow> env \<Rightarrow> bool" for f32 :: "real \<Rightarrow> 'f" where
  reach_init: "init ir bp slm w = (Inr e, w') \<Longrightarrow> reachable f32 e"
| reach_reset: "reachable f32 e \<Longrightarrow> reset f32 e = (r, e') \<Longrightarrow> reachable f32 e'"
| reach_step: "reachable f32 e \<Longrightarrow> step f32 e act w = (r, e', w') \<Longrightarrow> reachable f32 e'"

subsection \<open>The stages in order\<close>

definition stage_cmds :: "string \<Rightarrow> string \<Rightarrow> cmd list" where
  "stage_cmds ir bp = [cmd_pass ir, cmd_vec, cmd_clang bp, cmd_run bp]"


text \<open>What the next run of the toolchain will meet: \<open>stages_ok\<close> when the next four
  child processes all exit with status 0, and \<open>first_failure\<close> the position (0 to 3) of the
  first that does not.\<close>

definition stages_ok :: "world \<Rightarrow> bool" where
  "stages_ok w =
     (let k = length (launched w)
      in exit_status w k = 0 \<and> exit_status w (Suc k) = 0 \<and> exit_status w (Suc (Suc k)) = 0 \<and>
         exit_status w (Suc (Suc (Suc k))) = 0)"

definition first_failure :: "world \<Rightarrow> nat option" where
  "first_failure w =
     (let k = length (launched w)
      in if exit_status w k \<noteq> 0 then Some 0
         else if exit_status w (Suc k) \<noteq> 0 then Some 1
         else if exit_status w (Suc (Suc k)) \<noteq> 0 then Some 2
         else if exit_status w (Suc (Suc (Suc k))) \<noteq> 0 then Some 3
         else None)"

subsection \<open>The encoding in the specification's words\<close>

text \<open>The six fields in order, each as a float, \<open>-1\<close> standing for a missing trip count;
  and the records for which no conversion overflows.\<close>

definition encode :: "(real \<Rightarrow> 'f) \<Rightarrow> loop \<Rightarrow> 'f list" where
  "encode f32 l =
     [f32 (of_int (get_default (num_blocks l) 0)), f32 (of_int (get_default (num_loads l) 0)),
      f32 (of_int (get_default (num_stores l) 0)), f32 (of_int (get_default (num_arith l) 0)),
      f32 (of_int (get_default (num_calls l) 0)),
      f32 (of_int (get_default (trip_count_est l) (- 1)))]"

definition fits_float :: "loop \<Rightarrow> bool" where
  "fits_float l =
     (\<bar>get_default (num_blocks l) 0\<bar> < float_limit \<and> \<bar>get_default (num_loads l) 0\<bar> < float_limit \<and>
      \<bar>get_default (num_stores l) 0\<bar> < float_limit \<and> \<bar>get_default (num_arith l) 0\<bar> < float_limit \<and>
      \<bar>get_default (num_calls l) 0\<bar> < float_limit \<and>
      \<bar>get_default (trip_count_est l) (- 1)\<bar> < float_limit)"

subsection \<open>A concrete run\<close>

text \<open>Two loops, \<open>L1\<close> without a trip count and \<open>L2\<close> with one; every child process exits
  with status 0; the baseline takes 5 seconds, the first trial 3, the second 7.\<close>

definition loop_L1 :: loop where
  "loop_L1 = \<lparr>loop_id = Some ''L1'', num_blocks = Some 3, num_loads = Some 2, num_stores = Some 1,
              num_arith = Some 4, num_calls = Some 0, trip_count_est = None\<rparr>"

definition loop_L2 :: loop where
  "loop_L2 = \<lparr>loop_id = Some ''L2'', num_blocks = Some 1, num_loads = Some 1, num_stores = Some 1,
              num_arith = Some 2, num_calls = Some 1, trip_count_est = Some 100\<rparr>"

definition ok_status :: "nat \<Rightarrow> int" where
  "ok_status k = 0"

definition fail_at :: "nat \<Rightarrow> nat \<Rightarrow> int" where
  "fail_at j k = (if k = j then 1 else 0)"

definition demo_clock :: "nat \<Rightarrow> real" where
  "demo_clock k =
     (if k = 0 then 0 else if k = 1 then 5 else if k = 2 then 10 else if k = 3 then 13
      else if k = 4 then 20 else if k = 5 then 27 else 10 * of_nat k)"

definition demo_world :: "loop list \<Rightarrow> world" where
  "demo_world ls = \<lparr>features_file = Inr ls, actions_file = None, exit_status = ok_status,
                    clock = demo_clock, launched = [], clock_reads = 0\<rparr>"

text \<open>The same directory with a \<open>loop_actions.json\<close> left behind by an earlier session.\<close>

definition stale_world :: world where
  "stale_world = (demo_world [loop_L1, loop_L2])\<lparr>actions_file := Some [(''L1'', [(''width'', JInt 8)])]\<rparr>"

text \<open>The object and the world after \<open>LoopVectorizeEnv("benchmark.ll")\<close> in \<open>demo_world ls\<close>.\<close>

definition demo_env :: "bool \<Rightarrow> loop list \<Rightarrow> env" where
  "demo_env slm ls =
     \<lparr>ir_path = ''benchmark.ll'', binary_path = ''./a.out'', single_loop_mode = slm, loops = ls,
      n_loops = length ls, obs_dim = 6,
      action_space = (if slm then Discrete 4 else MultiDiscrete (replicate (length ls) 4)),
      observation_space = (if slm then Box (- 1000000000) 1000000000 6
                           else Box (- 1000000000) 1000000000 (length ls * 6)),
      baseline_time = 5, current_loop_idx = 0\<rparr>"

definition trial_world :: "loop list \<Rightarrow> world" where
  "trial_world ls =
     (demo_world ls)\<lparr>launched := map (\<lambda>c. (c, None)) (stage_cmds ''benchmark.ll'' ''./a.out''),
                     clock_reads := 2\<rparr>"

text \<open>The same directory without \<open>loop_features.json\<close>.\<close>

definition missing_world :: world where
  "missing_world = (demo_world [])\<lparr>features_file := Inl FileNotFoundError\<rparr>"

text \<open>A loop whose trip count estimate is \<open>10 ^ 309\<close>, beyond the range of a double.\<close>

definition loop_huge :: loop where
  "loop_huge = \<lparr>loop_id = Some ''L1'', num_blocks = Some 3, num_loads = Some 2, num_stores = Some 1,
                num_arith = Some 4, num_calls = Some 0, trip_count_est = Some (10 ^ 309)\<rparr>"

section \<open>Auxiliary facts\<close>

lemma run_binary_unfold:
  "run_binary bp ir tag w =
     (let k = length (launched w); a = actions_file w; r = clock_reads w in
      if exit_status w k \<noteq> 0 then
        (Inl (CalledProcessError (exit_status w k) (cmd_pass ir)),
         w\<lparr>launched := launched w @ [(cmd_pass ir, a)]\<rparr>)
      else if exit_status w (Suc k) \<noteq> 0 then
        (Inl (CalledProcessError (exit_status w (Suc k)) cmd_vec),
         w\<lparr>launched := launched w @ [(cmd_pass ir, a), (cmd_vec, a)]\<rparr>)
      else if exit_status w (Suc (Suc k)) \<noteq> 0 then
        (Inl (CalledProcessError (exit_status w (Suc (Suc k))) (cmd_clang bp)),
         w\<lparr>launched := launched w @ [(cmd_pass ir, a), (cmd_vec, a), (cmd_clang bp, a)]\<rparr>)
      else if exit_status w (Suc (Suc (Suc k))) \<noteq> 0 then
        (Inl (CalledProcessError (exit_status w (Suc (Suc (Suc k)))) (cmd_run bp)),
         w\<lparr>launched := launched w @ [(cmd_pass ir, a), (cmd_vec, a), (cmd_clang bp, a), (cmd_run bp, a)],
           clock_reads := Suc r\<rparr>)
      else
        (Inr (clock w (Suc r) - clock w r),
         w\<lparr>launched := launched w @ [(cmd_pass ir, a), (cmd_vec, a), (cmd_clang bp, a), (cmd_run bp, a)],
           clock_reads := Suc (Suc r)\<rparr>))"
  by (simp add: run_binary_def check_call_def time_time_def Let_def)

lemma distinct_stage_cmds: "distinct (stage_cmds ir bp)"
  by (simp add: stage_cmds_def cmd_pass_def cmd_vec_def cmd_clang_def cmd_run_def)

lemma update_fresh: "k \<notin> fst ` set m \<Longrightarrow> AList.update k v m = m @ [(k, v)]"
  by (induction m) auto

lemma build_act_map_zip:
  "idx + length v \<le> length ls \<Longrightarrow> \<forall>l\<in>set ls. loop_id l \<noteq> None \<Longrightarrow> distinct (map loop_id ls) \<Longrightarrow>
   map (\<lambda>p. Some (fst p)) m = map loop_id (take idx ls) \<Longrightarrow>
   build_act_map ls idx v m =
     Inr (m @ zip (map (\<lambda>l. the (loop_id l)) (take (length v) (drop idx ls)))
                  (map (\<lambda>a. action_to_metadata (Scalar a)) v))"
proof (induction v arbitrary: idx m)
  case Nil
  then show ?case by simp
next
  case (Cons a v)
  let ?d = "action_to_metadata (Scalar a)"
  from Cons.prems(1) have lt: "idx < length ls" by simp
  then have "ls ! idx \<in> set ls" by simp
  with Cons.prems(2) have "loop_id (ls ! idx) \<noteq> None" by blast
  then obtain k where k: "loop_id (ls ! idx) = Some k" by blast
  have fresh: "k \<notin> fst ` set m"
  proof
    assume "k \<in> fst ` set m"
    then have "Some k \<in> set (map (\<lambda>p. Some (fst p)) m)" by force
    then have "Some k \<in> set (map loop_id (take idx ls))" by (simp only: Cons.prems(4))
    then obtain j where j: "j < idx" "loop_id (ls ! j) = Some k"
      using lt by (auto simp: in_set_conv_nth)
    have "map loop_id ls ! j = map loop_id ls ! idx" using j lt k by simp
    moreover have "j < length (map loop_id ls)" "idx < length (map loop_id ls)" using j lt by simp_all
    ultimately have "j = idx" using Cons.prems(3) by (simp only: nth_eq_iff_index_eq)
    with j(1) show False by simp
  qed
  have upd: "AList.update k ?d m = m @ [(k, ?d)]"
    using fresh by (rule update_fresh)
  have pre: "map (\<lambda>p. Some (fst p)) (m @ [(k, ?d)]) = map loop_id (take (Suc idx) ls)"
    using Cons.prems(4) lt k by (simp add: take_Suc_conv_app_nth del: action_to_metadata.simps)
  have le: "Suc idx + length v \<le> length ls" using Cons.prems(1) by simp
  have IH: "build_act_map ls (Suc idx) v (m @ [(k, ?d)]) =
     Inr ((m @ [(k, ?d)]) @ zip (map (\<lambda>l. the (loop_id l)) (take (length v) (drop (Suc idx) ls)))
                  (map (\<lambda>a. action_to_metadata (Scalar a)) v))"
    by (rule Cons.IH[OF le Cons.prems(2) Cons.prems(3) pre])
  have dr: "take (Suc (length v)) (drop idx ls) = ls ! idx # take (length v) (drop (Suc idx) ls)"
    using lt by (simp add: Cons_nth_drop_Suc[symmetric])
  have "build_act_map ls idx (a # v) m = build_act_map ls (Suc idx) v (AList.update k ?d m)"
    using lt k by (simp add: py_index_def get_loop_id_def del: action_to_metadata.simps)
  also have "\<dots> = Inr ((m @ [(k, ?d)]) @ zip (map (\<lambda>l. the (loop_id l)) (take (length v) (drop (Suc idx) ls)))
                  (map (\<lambda>a. action_to_metadata (Scalar a)) v))"
    by (simp only: upd IH)
  also have "\<dots> = Inr (m @ zip (map (\<lambda>l. the (loop_id l)) (take (length (a # v)) (drop idx ls)))
                  (map (\<lambda>a. action_to_metadata (Scalar a)) (a # v)))"
    by (simp add: dr k del: action_to_metadata.simps)
  finally show ?case .
qed

lemma take_drop_concat:
  "\<forall>x\<in>set xs. length (g x) = n \<Longrightarrow> i < length xs \<Longrightarrow>
   take n (drop (n * i) (concat (map g xs))) = g (xs ! i)"
proof (induction xs arbitrary: i)
  case Nil
  then show ?case by simp
next
  case (Cons x xs)
  then show ?case by (cases i) auto
qed

lemma length_concat_const:
  "\<forall>x\<in>set xs. length (g x) = n \<Longrightarrow> length (concat (map g xs)) = n * length xs"
  by (induction xs) auto

lemma length_encode: "length (encode f32 l) = 6"
  by (simp add: encode_def)

lemma feature_to_obs_fits: "fits_float l \<Longrightarrow> feature_to_obs f32 l = Inr (encode f32 l)"
  by (simp add: feature_to_obs_def fits_float_def py_float_def encode_def Let_def)

lemma obs_all_fits: "\<forall>l\<in>set ls. fits_float l \<Longrightarrow> obs_all f32 ls = Inr (map (encode f32) ls)"
  by (induction ls) (simp_all add: feature_to_obs_fits)

lemma float_limit_gt: "1000 < float_limit"
  by (simp add: float_limit_def)

lemma fits_L1: "fits_float loop_L1"
  using float_limit_gt by (simp add: fits_float_def loop_L1_def get_default_def)

lemma fits_L2: "fits_float loop_L2"
  using float_limit_gt by (simp add: fits_float_def loop_L2_def get_default_def)

subsection \<open>The concrete run, evaluated\<close>

lemma init_demo: "init ''benchmark.ll'' ''./a.out'' slm (demo_world ls) = (Inr (demo_env slm ls), trial_world ls)"
  by (simp add: init_def run_binary_unfold Let_def demo_world_def demo_env_def trial_world_def
      stage_cmds_def ok_status_def demo_clock_def)

lemma reachable_demo: "reachable f32 (demo_env slm ls)"
  by (rule reach_init[OF init_demo])

lemma step_demo_single:
  "step f32 (demo_env True (loop_L1 # ls)) (Scalar 1) (trial_world (loop_L1 # ls)) =
     (Inr \<lparr>obs = replicate 6 (f32 0), reward = 2, is_done = True, info = [(''runtime'', 3)]\<rparr>,
      (demo_env True (loop_L1 # ls))\<lparr>current_loop_idx := 1\<rparr>,
      (trial_world (loop_L1 # ls))
        \<lparr>actions_file := Some [(''L1'', [(''width'', JInt 2)])],
         launched := launched (trial_world (loop_L1 # ls)) @
           map (\<lambda>c. (c, Some [(''L1'', [(''width'', JInt 2)])])) (stage_cmds ''benchmark.ll'' ''./a.out''),
         clock_reads := 4\<rparr>)"
  by (simp add: step_def run_binary_unfold Let_def demo_world_def demo_env_def trial_world_def
      stage_cmds_def ok_status_def demo_clock_def py_index_def get_loop_id_def loop_L1_def
      write_actions_def np_zeros_def)

lemma step_demo_whole:
  "step f32 (demo_env False [loop_L1, loop_L2]) (Vector [3, 0]) (trial_world [loop_L1, loop_L2]) =
     (Inr \<lparr>obs = replicate 12 (f32 0), reward = 2, is_done = True, info = [(''runtime'', 3)]\<rparr>,
      demo_env False [loop_L1, loop_L2],
      (trial_world [loop_L1, loop_L2])
        \<lparr>actions_file := Some [(''L1'', [(''width'', JInt 8)]), (''L2'', [(''disable'', JBool True)])],
         launched := launched (trial_world [loop_L1, loop_L2]) @
           map (\<lambda>c. (c, Some [(''L1'', [(''width'', JInt 8)]), (''L2'', [(''disable'', JBool True)])]))
             (stage_cmds ''benchmark.ll'' ''./a.out''),
         clock_reads := 4\<rparr>)"
  by (simp add: step_def run_binary_unfold Let_def demo_world_def demo_env_def trial_world_def
      stage_cmds_def ok_status_def demo_clock_def py_index_def get_loop_id_def loop_L1_def loop_L2_def
      write_actions_def np_zeros_def)

lemma reset_state: "snd (reset f32 e) = e\<lparr>current_loop_idx := 0\<rparr>"
  by (simp add: reset_def Let_def split: sum.splits)

lemma reset_huge:
  "fst (reset f32 (demo_env True [loop_huge])) = Inl OverflowError \<and>
   fst (reset f32 (demo_env False [loop_L1, loop_huge])) = Inl OverflowError"
  using fits_L1[THEN feature_to_obs_fits, of f32]
  by (simp add: reset_def Let_def demo_env_def py_index_def feature_to_obs_def py_float_def
      float_limit_def loop_huge_def get_default_def)

lemma step_loops: "step f32 e act w = (res, e', w') \<Longrightarrow>
  loops e' = loops e \<and> n_loops e' = n_loops e \<and> obs_dim e' = obs_dim e \<and>
  single_loop_mode e' = single_loop_mode e \<and> baseline_time e' = baseline_time e"
  by (auto simp: step_def run_binary_unfold Let_def
      split: if_splits sum.splits action.splits)

lemma step_cursor: "step f32 e act w = (res, e', w') \<Longrightarrow>
  (current_loop_idx e' = current_loop_idx e \<or>
   (current_loop_idx e' = Suc (current_loop_idx e) \<and> current_loop_idx e < length (loops e)))"
  by (auto simp: step_def run_binary_unfold Let_def py_index_def
      split: if_splits sum.splits action.splits)

lemma init_success:
  assumes "init ir bp slm w = (Inr e, w')"
  shows "n_loops e = length (loops e) \<and> obs_dim e = 6 \<and> current_loop_idx e = 0"
proof (cases "features_file w")
  case (Inl err)
  with assms show ?thesis by (simp add: init_def)
next
  case (Inr ls)
  obtain res w1 where rb: "run_binary bp ir ''baseline'' w = (res, w1)" by (cases "run_binary bp ir ''baseline'' w")
  show ?thesis
  proof (cases res)
    case (Inl err)
    with assms Inr rb show ?thesis by (simp add: init_def Let_def)
  next
    case (Inr t)
    with assms \<open>features_file w = Inr ls\<close> rb show ?thesis by (auto simp: init_def Let_def)
  qed
qed

lemma reachable_inv:
  "reachable f32 e \<Longrightarrow> n_loops e = length (loops e) \<and> obs_dim e = 6 \<and> current_loop_idx e \<le> n_loops e"
proof (induction rule: reachable.induct)
  case (reach_init ir bp slm w e w')
  from init_success[OF reach_init] show ?case by simp
next
  case (reach_reset e r e')
  then have "e' = e\<lparr>current_loop_idx := 0\<rparr>" using reset_state[of f32 e] by simp
  with reach_reset show ?case by simp
next
  case (reach_step e act w r e' w')
  from step_loops[OF reach_step.hyps(2)] step_cursor[OF reach_step.hyps(2)] reach_step.IH
  show ?case by auto
qed


lemma run_binary_actions_file: "actions_file (snd (run_binary bp ir tag w)) = actions_file w"
  by (simp add: run_binary_unfold Let_def)

lemma step_whole_actions_file:
  assumes "\<not> single_loop_mode e" and "build_act_map (loops e) 0 v [] = Inr m"
  shows "actions_file (snd (snd (step f32 e (Vector v) w))) = Some m"
proof -
  obtain r w2 where rb: "run_binary (binary_path e) (ir_path e) ''trial'' (write_actions m w) = (r, w2)"
    by (cases "run_binary (binary_path e) (ir_path e) ''trial'' (write_actions m w)")
  have "actions_file w2 = actions_file (write_actions m w)"
    using run_binary_actions_file[of "binary_path e" "ir_path e" "''trial''" "write_actions m w"] rb by simp
  then have w2: "actions_file w2 = Some m" by (simp add: write_actions_def)
  show ?thesis using assms rb w2
    by (cases r) (simp_all add: step_def Let_def)
qed


lemma distinct_map_SomeD: "distinct (map Some xs) \<Longrightarrow> distinct xs"
  by (simp add: distinct_map)

lemma run_binary_ok:
  "stages_ok w \<Longrightarrow>
   run_binary bp ir tag w =
     (Inr (clock w (Suc (clock_reads w)) - clock w (clock_reads w)),
      w\<lparr>launched := launched w @ map (\<lambda>c. (c, actions_file w)) (stage_cmds ir bp),
        clock_reads := Suc (Suc (clock_reads w))\<rparr>)"
  by (simp add: run_binary_unfold stages_ok_def Let_def stage_cmds_def)

lemma first_failure_cases:
  "first_failure w = Some j \<Longrightarrow>
   (j = 0 \<and> exit_status w (length (launched w)) \<noteq> 0) \<or>
   (j = 1 \<and> exit_status w (length (launched w)) = 0 \<and> exit_status w (Suc (length (launched w))) \<noteq> 0) \<or>
   (j = 2 \<and> exit_status w (length (launched w)) = 0 \<and> exit_status w (Suc (length (launched w))) = 0 \<and>
      exit_status w (Suc (Suc (length (launched w)))) \<noteq> 0) \<or>
   (j = 3 \<and> exit_status w (length (launched w)) = 0 \<and> exit_status w (Suc (length (launched w))) = 0 \<and>
      exit_status w (Suc (Suc (length (launched w)))) = 0 \<and>
      exit_status w (Suc (Suc (Suc (length (launched w))))) \<noteq> 0)"
  by (simp add: first_failure_def Let_def split: if_splits)

lemma run_binary_fail:
  assumes "first_failure w = Some j"
  shows "j < 4 \<and>
         fst (run_binary bp ir tag w) =
           Inl (CalledProcessError (exit_status w (length (launched w) + j)) (stage_cmds ir bp ! j)) \<and>
         launched (snd (run_binary bp ir tag w)) =
           launched w @ map (\<lambda>c. (c, actions_file w)) (take (Suc j) (stage_cmds ir bp))"
proof -
  from first_failure_cases[OF assms]
  consider (a) "j = 0" "exit_status w (length (launched w)) \<noteq> 0"
    | (b) "j = 1" "exit_status w (length (launched w)) = 0" "exit_status w (Suc (length (launched w))) \<noteq> 0"
    | (c) "j = 2" "exit_status w (length (launched w)) = 0" "exit_status w (Suc (length (launched w))) = 0"
        "exit_status w (Suc (Suc (length (launched w)))) \<noteq> 0"
    | (d) "j = 3" "exit_status w (length (launched w)) = 0" "exit_status w (Suc (length (launched w))) = 0"
        "exit_status w (Suc (Suc (length (launched w)))) = 0"
        "exit_status w (Suc (Suc (Suc (length (launched w))))) \<noteq> 0"
    by blast
  then show ?thesis
  proof cases
    case a
    then show ?thesis by (simp add: run_binary_unfold Let_def stage_cmds_def)
  next
    case b
    then show ?thesis by (simp add: run_binary_unfold Let_def stage_cmds_def)
  next
    case c
    then show ?thesis by (simp add: run_binary_unfold Let_def stage_cmds_def numeral_2_eq_2)
  next
    case d
    then show ?thesis by (simp add: run_binary_unfold Let_def stage_cmds_def numeral_3_eq_3)
  qed
qed

lemma not_ok_first_failure: "\<not> stages_ok w \<Longrightarrow> \<exists>j. first_failure w = Some j"
  by (simp add: stages_ok_def first_failure_def Let_def)

lemma first_failure_write_actions: "first_failure (write_actions m w) = first_failure w"
  by (simp add: first_failure_def write_actions_def Let_def)


lemma build_act_map_errors:
  "build_act_map ls idx v m = Inl err \<Longrightarrow> err = IndexError \<or> err = KeyError ''loop_id''"
proof (induction v arbitrary: idx m)
  case Nil
  then show ?case by simp
next
  case (Cons a v)
  show ?case
  proof (cases "py_index ls idx")
    case (Inl e1)
    then have "e1 = IndexError" by (simp add: py_index_def split: if_splits)
    with Inl Cons.prems show ?thesis by simp
  next
    case (Inr l)
    show ?thesis
    proof (cases "get_loop_id l")
      case (Inl e2)
      then have "e2 = KeyError ''loop_id''" by (simp add: get_loop_id_def split: option.splits)
      with Inl Inr Cons.prems show ?thesis by simp
    next
      case (Inr k)
      with \<open>py_index ls idx = Inr l\<close> Cons.prems
      have "build_act_map ls (Suc idx) v (AList.update k (action_to_metadata (Scalar a)) m) = Inl err"
        by (simp del: action_to_metadata.simps)
      then show ?thesis by (rule Cons.IH)
    qed
  qed
qed

subsection \<open>What the constructor does\<close>

text \<open>
  Once the features are loaded, the constructor runs the four stages of the toolchain once,
  in order, and does not touch \<open>loop_actions.json\<close>: every stage is started with that file
  as the constructor found it. When the four stages exit with status 0 the object is
  returned with \<open>baseline_time\<close> the elapsed time of that run; otherwise the construction
  raises and returns no object. Neither \<open>reset\<close> nor \<open>step\<close> changes \<open>baseline_time\<close>.
\<close>

lemma init_baseline:
  assumes "features_file w = Inr ls" and "init ir bp slm w = (res, w')"
  shows "actions_file w' = actions_file w \<and>
         (stages_ok w \<longrightarrow>
            (\<exists>e. res = Inr e \<and>
                 baseline_time e = clock w (Suc (clock_reads w)) - clock w (clock_reads w)) \<and>
            launched w' = launched w @ map (\<lambda>c. (c, actions_file w)) (stage_cmds ir bp)) \<and>
         (\<not> stages_ok w \<longrightarrow>
            (\<exists>rc c. res = Inl (CalledProcessError rc c)) \<and>
            (\<exists>j<4. launched w' = launched w @ map (\<lambda>c. (c, actions_file w)) (take (Suc j) (stage_cmds ir bp)))) \<and>
         baseline_time (snd (reset f32 e0)) = baseline_time e0 \<and>
         baseline_time (fst (snd (step f32 e0 act w0))) = baseline_time e0"
proof -
  obtain r w1 where rb: "run_binary bp ir ''baseline'' w = (r, w1)"
    by (cases "run_binary bp ir ''baseline'' w")
  have i: "init ir bp slm w = (case r of Inl err \<Rightarrow> (Inl err, w1) | Inr t \<Rightarrow>
      (Inr \<lparr>ir_path = ir, binary_path = bp, single_loop_mode = slm, loops = ls,
            n_loops = length ls, obs_dim = 6,
            action_space = (if slm then Discrete 4 else MultiDiscrete (replicate (length ls) 4)),
            observation_space = (if slm then Box (- 1000000000) 1000000000 6
                                 else Box (- 1000000000) 1000000000 (length ls * 6)),
            baseline_time = t, current_loop_idx = 0\<rparr>, w1))"
    using assms(1) rb by (simp add: init_def Let_def)
  have w1: "w' = w1" using i assms(2) by (cases r) simp_all
  have a: "actions_file w' = actions_file w"
    using run_binary_actions_file[of bp ir "''baseline''" w] rb w1 by simp
  have b: "stages_ok w \<longrightarrow>
            (\<exists>e. res = Inr e \<and>
                 baseline_time e = clock w (Suc (clock_reads w)) - clock w (clock_reads w)) \<and>
            launched w' = launched w @ map (\<lambda>c. (c, actions_file w)) (stage_cmds ir bp)"
  proof
    assume ok: "stages_ok w"
    from run_binary_ok[OF ok, of bp ir "''baseline''"] rb
    have "r = Inr (clock w (Suc (clock_reads w)) - clock w (clock_reads w))"
      and "launched w1 = launched w @ map (\<lambda>c. (c, actions_file w)) (stage_cmds ir bp)"
      by simp_all
    then show "(\<exists>e. res = Inr e \<and>
                 baseline_time e = clock w (Suc (clock_reads w)) - clock w (clock_reads w)) \<and>
            launched w' = launched w @ map (\<lambda>c. (c, actions_file w)) (stage_cmds ir bp)"
      using i assms(2) w1 by simp
  qed
  have c: "\<not> stages_ok w \<longrightarrow>
            (\<exists>rc c. res = Inl (CalledProcessError rc c)) \<and>
            (\<exists>j<4. launched w' = launched w @ map (\<lambda>c. (c, actions_file w)) (take (Suc j) (stage_cmds ir bp)))"
  proof
    assume bad: "\<not> stages_ok w"
    then obtain j where j: "first_failure w = Some j" using not_ok_first_failure by blast
    from run_binary_fail[OF j, of bp ir "''baseline''"] rb
    have j4: "j < 4"
      and r: "r = Inl (CalledProcessError (exit_status w (length (launched w) + j)) (stage_cmds ir bp ! j))"
      and l: "launched w1 = launched w @ map (\<lambda>c. (c, actions_file w)) (take (Suc j) (stage_cmds ir bp))"
      by simp_all
    from r i assms(2) have "res = Inl (CalledProcessError (exit_status w (length (launched w) + j)) (stage_cmds ir bp ! j))"
      by simp
    with j4 l w1 show "(\<exists>rc c. res = Inl (CalledProcessError rc c)) \<and>
            (\<exists>j<4. launched w' = launched w @ map (\<lambda>c. (c, actions_file w)) (take (Suc j) (stage_cmds ir bp)))"
      by blast
  qed
  have d: "baseline_time (snd (reset f32 e0)) = baseline_time e0" by (simp add: reset_state)
  obtain r0 e1 w2 where s: "step f32 e0 act w0 = (r0, e1, w2)" by (cases "step f32 e0 act w0")
  have e: "baseline_time (fst (snd (step f32 e0 act w0))) = baseline_time e0"
    using step_loops[OF s] s by simp
  from a b c d e show ?thesis by blast
qed


lemma init_baseline_demo:
  "features_file (demo_world [loop_L1, loop_L2]) = Inr [loop_L1, loop_L2] \<and>
   init ''benchmark.ll'' ''./a.out'' True (demo_world [loop_L1, loop_L2]) =
     (Inr (demo_env True [loop_L1, loop_L2]), trial_world [loop_L1, loop_L2]) \<and>
   stages_ok (demo_world [loop_L1, loop_L2]) \<and>
   actions_file (trial_world [loop_L1, loop_L2]) = actions_file (demo_world [loop_L1, loop_L2]) \<and>
   launched (trial_world [loop_L1, loop_L2]) =
     launched (demo_world [loop_L1, loop_L2]) @
     map (\<lambda>c. (c, actions_file (demo_world [loop_L1, loop_L2]))) (stage_cmds ''benchmark.ll'' ''./a.out'') \<and>
   baseline_time (demo_env True [loop_L1, loop_L2]) = 5"
proof -
  have f: "features_file (demo_world [loop_L1, loop_L2]) = Inr [loop_L1, loop_L2]"
    by (simp add: demo_world_def)
  note i = init_demo[of True "[loop_L1, loop_L2]"]
  have ok: "stages_ok (demo_world [loop_L1, loop_L2])"
    by (simp add: stages_ok_def demo_world_def ok_status_def)
  from init_baseline[OF f i] ok
  have a: "actions_file (trial_world [loop_L1, loop_L2]) = actions_file (demo_world [loop_L1, loop_L2])"
    and l: "launched (trial_world [loop_L1, loop_L2]) =
     launched (demo_world [loop_L1, loop_L2]) @
     map (\<lambda>c. (c, actions_file (demo_world [loop_L1, loop_L2]))) (stage_cmds ''benchmark.ll'' ''./a.out'')"
    by blast+
  have b: "baseline_time (demo_env True [loop_L1, loop_L2]) = 5" by (simp add: demo_env_def)
  from f i ok a l b show ?thesis by blast
qed


section \<open>The claims\<close>

text \<open>
  C2. \<open>action_to_metadata\<close> is defined on every integer and follows the table: 0 gives
  \<open>{"disable": True}\<close>, 1 gives \<open>{"width": 2}\<close>, 2 gives \<open>{"width": 4}\<close>, 3 gives
  \<open>{"width": 8}\<close>, and every integer outside 0..3 gives \<open>{"disable": True}\<close>; no integer
  leads to an error, the result being a directive and never an exception.
\<close>

theorem action_to_metadata_table:
  "action_to_metadata (Scalar 0) = [(''disable'', JBool True)] \<and>
   action_to_metadata (Scalar 1) = [(''width'', JInt 2)] \<and>
   action_to_metadata (Scalar 2) = [(''width'', JInt 4)] \<and>
   action_to_metadata (Scalar 3) = [(''width'', JInt 8)] \<and>
   (a < 0 \<or> 3 < a \<longrightarrow> action_to_metadata (Scalar a) = [(''disable'', JBool True)]) \<and>
   action_to_metadata (Scalar a) \<in>
     {[(''disable'', JBool True)], [(''width'', JInt 2)], [(''width'', JInt 4)], [(''width'', JInt 8)]}"
  by simp

theorem action_to_metadata_table_witness:
  "((7::int) < 0 \<or> 3 < (7::int)) \<and> action_to_metadata (Scalar 7) = [(''disable'', JBool True)] \<and>
   ((- 1::int) < 0 \<or> 3 < (- 1::int)) \<and> action_to_metadata (Scalar (- 1)) = [(''disable'', JBool True)]"
proof -
  have h7: "(7::int) < 0 \<or> 3 < (7::int)" by simp
  have hm: "(- 1::int) < 0 \<or> 3 < (- 1::int)" by simp
  from action_to_metadata_table[of 7] h7
  have c7: "action_to_metadata (Scalar 7) = [(''disable'', JBool True)]" by blast
  from action_to_metadata_table[of "- 1"] hm
  have cm: "action_to_metadata (Scalar (- 1)) = [(''disable'', JBool True)]" by blast
  from h7 c7 hm cm show ?thesis by blast
qed

text \<open>
  C3. Whenever \<open>step\<close> returns, in either mode, the reward is \<open>baseline_time\<close> minus the
  elapsed time of that trial (the difference of the two clock readings around the run of
  the binary, which is also \<open>info["runtime"]\<close>), with nothing else applied to it: it is
  positive when the trial was faster than the baseline, negative when it was slower and
  zero when they are equal.
\<close>

theorem step_reward:
  assumes "step f32 e act w = (Inr r, e', w')"
  shows "info r = [(''runtime'', clock w (Suc (clock_reads w)) - clock w (clock_reads w))] \<and>
         reward r = baseline_time e - snd (hd (info r)) \<and>
         (snd (hd (info r)) < baseline_time e \<longrightarrow> 0 < reward r) \<and>
         (baseline_time e < snd (hd (info r)) \<longrightarrow> reward r < 0) \<and>
         (snd (hd (info r)) = baseline_time e \<longrightarrow> reward r = 0)"
proof -
  have "info r = [(''runtime'', clock w (Suc (clock_reads w)) - clock w (clock_reads w))] \<and>
        reward r = baseline_time e - snd (hd (info r))"
    using assms
    by (auto simp: step_def run_binary_unfold Let_def write_actions_def
        split: if_splits sum.splits action.splits)
  then show ?thesis by auto
qed

theorem step_reward_witness:
  "step id (demo_env True [loop_L1, loop_L2]) (Scalar 1) (trial_world [loop_L1, loop_L2]) =
     (Inr \<lparr>obs = replicate 6 (id 0), reward = 2, is_done = True, info = [(''runtime'', 3)]\<rparr>,
      (demo_env True [loop_L1, loop_L2])\<lparr>current_loop_idx := 1\<rparr>,
      (trial_world [loop_L1, loop_L2])
        \<lparr>actions_file := Some [(''L1'', [(''width'', JInt 2)])],
         launched := launched (trial_world [loop_L1, loop_L2]) @
           map (\<lambda>c. (c, Some [(''L1'', [(''width'', JInt 2)])])) (stage_cmds ''benchmark.ll'' ''./a.out''),
         clock_reads := 4\<rparr>) \<and>
   (3::real) < baseline_time (demo_env True [loop_L1, loop_L2]) \<and>
   (2::real) = baseline_time (demo_env True [loop_L1, loop_L2]) - 3 \<and> (0::real) < 2 \<and>
   step id (demo_env False [loop_L1, loop_L2]) (Vector [3, 0]) (trial_world [loop_L1, loop_L2]) =
     (Inr \<lparr>obs = replicate 12 (id 0), reward = 2, is_done = True, info = [(''runtime'', 3)]\<rparr>,
      demo_env False [loop_L1, loop_L2],
      (trial_world [loop_L1, loop_L2])
        \<lparr>actions_file := Some [(''L1'', [(''width'', JInt 8)]), (''L2'', [(''disable'', JBool True)])],
         launched := launched (trial_world [loop_L1, loop_L2]) @
           map (\<lambda>c. (c, Some [(''L1'', [(''width'', JInt 8)]), (''L2'', [(''disable'', JBool True)])]))
             (stage_cmds ''benchmark.ll'' ''./a.out''),
         clock_reads := 4\<rparr>) \<and>
   (3::real) < baseline_time (demo_env False [loop_L1, loop_L2]) \<and>
   (2::real) = baseline_time (demo_env False [loop_L1, loop_L2]) - 3"
proof -
  note h = step_demo_single[of id "[loop_L2]"]
  note g = step_demo_whole[of id]
  from step_reward[OF h]
  have s1: "(2::real) = baseline_time (demo_env True [loop_L1, loop_L2]) - 3" by simp
  have s2: "(3::real) < baseline_time (demo_env True [loop_L1, loop_L2])"
    by (simp add: demo_env_def)
  from step_reward[OF g]
  have w1: "(2::real) = baseline_time (demo_env False [loop_L1, loop_L2]) - 3" by simp
  have w2: "(3::real) < baseline_time (demo_env False [loop_L1, loop_L2])"
    by (simp add: demo_env_def)
  have p: "(0::real) < 2" by simp
  from h s2 s1 p g w2 w1 show ?thesis by blast
qed

text \<open>
  C4. Whenever \<open>step\<close> returns, in single-loop mode and in whole-program mode alike, the
  flag \<open>done\<close> it returns is \<open>True\<close>.
\<close>

theorem step_done:
  assumes "step f32 e act w = (Inr r, e', w')"
  shows "is_done r"
  using assms
  by (auto simp: step_def run_binary_unfold Let_def
      split: if_splits sum.splits action.splits)

theorem step_done_witness:
  "step id (demo_env False [loop_L1, loop_L2]) (Vector [3, 0]) (trial_world [loop_L1, loop_L2]) =
     (Inr \<lparr>obs = replicate 12 (id 0), reward = 2, is_done = True, info = [(''runtime'', 3)]\<rparr>,
      demo_env False [loop_L1, loop_L2],
      (trial_world [loop_L1, loop_L2])
        \<lparr>actions_file := Some [(''L1'', [(''width'', JInt 8)]), (''L2'', [(''disable'', JBool True)])],
         launched := launched (trial_world [loop_L1, loop_L2]) @
           map (\<lambda>c. (c, Some [(''L1'', [(''width'', JInt 8)]), (''L2'', [(''disable'', JBool True)])]))
             (stage_cmds ''benchmark.ll'' ''./a.out''),
         clock_reads := 4\<rparr>) \<and>
   is_done \<lparr>obs = replicate 12 (id (0::real)), reward = 2, is_done = True, info = [(''runtime'', 3)]\<rparr> \<and>
   step id (demo_env True [loop_L1, loop_L2]) (Scalar 1) (trial_world [loop_L1, loop_L2]) =
     (Inr \<lparr>obs = replicate 6 (id 0), reward = 2, is_done = True, info = [(''runtime'', 3)]\<rparr>,
      (demo_env True [loop_L1, loop_L2])\<lparr>current_loop_idx := 1\<rparr>,
      (trial_world [loop_L1, loop_L2])
        \<lparr>actions_file := Some [(''L1'', [(''width'', JInt 2)])],
         launched := launched (trial_world [loop_L1, loop_L2]) @
           map (\<lambda>c. (c, Some [(''L1'', [(''width'', JInt 2)])])) (stage_cmds ''benchmark.ll'' ''./a.out''),
         clock_reads := 4\<rparr>) \<and>
   is_done \<lparr>obs = replicate 6 (id (0::real)), reward = 2, is_done = True, info = [(''runtime'', 3)]\<rparr>"
proof -
  note h = step_demo_whole[of id]
  note g = step_demo_single[of id "[loop_L2]"]
  note dh = step_done[OF h]
  note dg = step_done[OF g]
  from h dh g dg show ?thesis by blast
qed

text \<open>
  C5 (as the code has it). For every loaded feature record whose six values convert to a
  float without overflow, the encoding is the six entries \<open>num_blocks\<close>, \<open>num_loads\<close>,
  \<open>num_stores\<close>, \<open>num_arith\<close>, \<open>num_calls\<close>, \<open>trip_count_est\<close> in this order, each converted
  to a float; a missing \<open>trip_count_est\<close> is encoded as the float of \<open>-1\<close>, and a present one
  as the float of its value, whatever it is. In single-loop mode, when the first record
  converts, \<open>reset\<close> returns the encoding of the record at the cursor, which it has set to
  0, of length 6; in whole-program mode, when every record converts, it returns the
  encodings of all records, concatenated in load order, of length \<open>6 * n_loops\<close>.
\<close>

theorem reset_observation:
  assumes "reachable f32 e" and "i < length (loops e)"
  shows "(fits_float (loops e ! i) \<longrightarrow>
            feature_to_obs f32 (loops e ! i) =
              Inr [f32 (of_int (get_default (num_blocks (loops e ! i)) 0)),
                   f32 (of_int (get_default (num_loads (loops e ! i)) 0)),
                   f32 (of_int (get_default (num_stores (loops e ! i)) 0)),
                   f32 (of_int (get_default (num_arith (loops e ! i)) 0)),
                   f32 (of_int (get_default (num_calls (loops e ! i)) 0)),
                   f32 (of_int (get_default (trip_count_est (loops e ! i)) (- 1)))] \<and>
            feature_to_obs f32 (loops e ! i) = Inr (encode f32 (loops e ! i))) \<and>
         (trip_count_est (loops e ! i) = None \<longrightarrow> encode f32 (loops e ! i) ! 5 = f32 (- 1)) \<and>
         (\<forall>t. trip_count_est (loops e ! i) = Some t \<longrightarrow>
              encode f32 (loops e ! i) ! 5 = f32 (of_int t)) \<and>
         (single_loop_mode e \<longrightarrow> fits_float (loops e ! 0) \<longrightarrow>
            reset f32 e = (Inr (encode f32 (loops e ! current_loop_idx (snd (reset f32 e)))),
                           e\<lparr>current_loop_idx := 0\<rparr>) \<and>
            length (encode f32 (loops e ! current_loop_idx (snd (reset f32 e)))) = 6) \<and>
         (\<not> single_loop_mode e \<longrightarrow> (\<forall>l\<in>set (loops e). fits_float l) \<longrightarrow>
            reset f32 e = (Inr (concat (map (encode f32) (loops e))), e\<lparr>current_loop_idx := 0\<rparr>) \<and>
            length (concat (map (encode f32) (loops e))) = 6 * n_loops e \<and>
            take 6 (drop (6 * i) (concat (map (encode f32) (loops e)))) = encode f32 (loops e ! i))"
proof -
  have len: "\<forall>l\<in>set (loops e). length (encode f32 l) = 6"
    by (simp add: length_encode)
  have n: "n_loops e = length (loops e)" using reachable_inv[OF assms(1)] by simp
  have ne: "loops e \<noteq> []" using assms(2) by auto
  have enc: "fits_float (loops e ! i) \<longrightarrow>
            feature_to_obs f32 (loops e ! i) =
              Inr [f32 (of_int (get_default (num_blocks (loops e ! i)) 0)),
                   f32 (of_int (get_default (num_loads (loops e ! i)) 0)),
                   f32 (of_int (get_default (num_stores (loops e ! i)) 0)),
                   f32 (of_int (get_default (num_arith (loops e ! i)) 0)),
                   f32 (of_int (get_default (num_calls (loops e ! i)) 0)),
                   f32 (of_int (get_default (trip_count_est (loops e ! i)) (- 1)))] \<and>
            feature_to_obs f32 (loops e ! i) = Inr (encode f32 (loops e ! i))"
    by (simp add: feature_to_obs_fits) (simp add: encode_def)
  have tri_none: "trip_count_est (loops e ! i) = None \<longrightarrow> encode f32 (loops e ! i) ! 5 = f32 (- 1)"
    by (simp add: encode_def get_default_def)
  have tri_some: "\<forall>t. trip_count_est (loops e ! i) = Some t \<longrightarrow>
              encode f32 (loops e ! i) ! 5 = f32 (of_int t)"
    by (simp add: encode_def get_default_def)
  have single: "single_loop_mode e \<longrightarrow> fits_float (loops e ! 0) \<longrightarrow>
            reset f32 e = (Inr (encode f32 (loops e ! current_loop_idx (snd (reset f32 e)))),
                           e\<lparr>current_loop_idx := 0\<rparr>) \<and>
            length (encode f32 (loops e ! current_loop_idx (snd (reset f32 e)))) = 6"
    using ne by (simp add: reset_state length_encode)
      (simp add: reset_def Let_def py_index_def feature_to_obs_fits)
  have whole: "\<not> single_loop_mode e \<longrightarrow> (\<forall>l\<in>set (loops e). fits_float l) \<longrightarrow>
            reset f32 e = (Inr (concat (map (encode f32) (loops e))), e\<lparr>current_loop_idx := 0\<rparr>) \<and>
            length (concat (map (encode f32) (loops e))) = 6 * n_loops e \<and>
            take 6 (drop (6 * i) (concat (map (encode f32) (loops e)))) = encode f32 (loops e ! i)"
    using ne n length_concat_const[OF len] take_drop_concat[OF len assms(2)]
    by (simp add: reset_def Let_def np_concatenate_def obs_all_fits)
  from enc tri_none tri_some single whole show ?thesis by blast
qed

theorem reset_observation_witness:
  "reachable id (demo_env False [loop_L1, loop_L2]) \<and>
   (0::nat) < length (loops (demo_env False [loop_L1, loop_L2])) \<and>
   trip_count_est (loops (demo_env False [loop_L1, loop_L2]) ! 0) = None \<and>
   \<not> single_loop_mode (demo_env False [loop_L1, loop_L2]) \<and>
   fits_float loop_L1 \<and> fits_float loop_L2 \<and>
   reset id (demo_env False [loop_L1, loop_L2]) =
     (Inr [3, 2, 1, 4, 0, - 1, 1, 1, 1, 2, 1, 100], demo_env False [loop_L1, loop_L2]) \<and>
   reachable id (demo_env True [loop_L1, loop_L2]) \<and>
   single_loop_mode (demo_env True [loop_L1, loop_L2]) \<and>
   reset id (demo_env True [loop_L1, loop_L2]) =
     (Inr [3, 2, 1, 4, 0, - 1], demo_env True [loop_L1, loop_L2])"
proof -
  have rf: "reachable id (demo_env False [loop_L1, loop_L2])" by (rule reachable_demo)
  have rt: "reachable id (demo_env True [loop_L1, loop_L2])" by (rule reachable_demo)
  have lf: "(0::nat) < length (loops (demo_env False [loop_L1, loop_L2]))" by (simp add: demo_env_def)
  have lt: "(0::nat) < length (loops (demo_env True [loop_L1, loop_L2]))" by (simp add: demo_env_def)
  have mf: "\<not> single_loop_mode (demo_env False [loop_L1, loop_L2])" by (simp add: demo_env_def)
  have mt: "single_loop_mode (demo_env True [loop_L1, loop_L2])" by (simp add: demo_env_def)
  have tn: "trip_count_est (loops (demo_env False [loop_L1, loop_L2]) ! 0) = None"
    by (simp add: demo_env_def loop_L1_def)
  have allfit: "\<forall>l\<in>set (loops (demo_env False [loop_L1, loop_L2])). fits_float l"
    by (simp add: demo_env_def fits_L1 fits_L2)
  have fit0: "fits_float (loops (demo_env True [loop_L1, loop_L2]) ! 0)"
    by (simp add: demo_env_def fits_L1)
  from reset_observation[OF rf lf] mf allfit
  have "reset id (demo_env False [loop_L1, loop_L2]) =
     (Inr (concat (map (encode id) (loops (demo_env False [loop_L1, loop_L2])))),
      (demo_env False [loop_L1, loop_L2])\<lparr>current_loop_idx := 0\<rparr>)" by blast
  then have cf: "reset id (demo_env False [loop_L1, loop_L2]) =
     (Inr [3, 2, 1, 4, 0, - 1, 1, 1, 1, 2, 1, 100], demo_env False [loop_L1, loop_L2])"
    by (simp add: demo_env_def encode_def get_default_def loop_L1_def loop_L2_def)
  from reset_observation[OF rt lt] mt fit0
  have "reset id (demo_env True [loop_L1, loop_L2]) =
     (Inr (encode id (loops (demo_env True [loop_L1, loop_L2]) !
             current_loop_idx (snd (reset id (demo_env True [loop_L1, loop_L2]))))),
      (demo_env True [loop_L1, loop_L2])\<lparr>current_loop_idx := 0\<rparr>)" by blast
  then have ct: "reset id (demo_env True [loop_L1, loop_L2]) =
     (Inr [3, 2, 1, 4, 0, - 1], demo_env True [loop_L1, loop_L2])"
    by (simp add: reset_state) (simp add: demo_env_def encode_def get_default_def loop_L1_def)
  from rf lf tn mf fits_L1 fits_L2 cf rt mt ct show ?thesis by blast
qed

text \<open>
  The claim as the specification words it, for every loaded record, fails for a record
  whose \<open>trip_count_est\<close> is \<open>10 ^ 309\<close>: \<open>float\<close> raises \<open>OverflowError\<close> and \<open>reset\<close>
  returns no observation, in single-loop mode and in whole-program mode.
\<close>

theorem reset_overflow_counterexample:
  "trip_count_est loop_huge = Some (10 ^ 309) \<and>
   fst (reset id (demo_env True [loop_huge])) = (Inl OverflowError :: py_error + real list) \<and>
   fst (reset id (demo_env False [loop_L1, loop_huge])) = (Inl OverflowError :: py_error + real list)"
  by (simp add: reset_huge) (simp add: loop_huge_def)

text \<open>
  C6. In every reachable state: \<open>reset\<close> leaves the cursor \<open>current_loop_idx\<close> at 0; a
  \<open>step\<close> of single-loop mode that returns leaves it one higher; no \<open>step\<close>, returning
  or raising, in either mode, leaves it lower; and it is at most \<open>n_loops\<close>.
\<close>

theorem cursor_discipline:
  assumes "reachable f32 e"
  shows "current_loop_idx (snd (reset f32 e)) = 0 \<and>
         (\<forall>act w r e' w'. single_loop_mode e \<longrightarrow> step f32 e act w = (Inr r, e', w') \<longrightarrow>
            current_loop_idx e' = current_loop_idx e + 1) \<and>
         (\<forall>act w res e' w'. step f32 e act w = (res, e', w') \<longrightarrow>
            current_loop_idx e \<le> current_loop_idx e') \<and>
         current_loop_idx e \<le> n_loops e"
proof -
  have a: "current_loop_idx (snd (reset f32 e)) = 0" by (simp add: reset_state)
  have b: "\<forall>act w r e' w'. single_loop_mode e \<longrightarrow> step f32 e act w = (Inr r, e', w') \<longrightarrow>
            current_loop_idx e' = current_loop_idx e + 1"
    by (auto simp: step_def run_binary_unfold Let_def split: if_splits sum.splits)
  have c: "\<forall>act w res e' w'. step f32 e act w = (res, e', w') \<longrightarrow>
            current_loop_idx e \<le> current_loop_idx e'"
    using step_cursor[of f32 e] by fastforce
  have d: "current_loop_idx e \<le> n_loops e" using reachable_inv[OF assms] by simp
  from a b c d show ?thesis by blast
qed

theorem cursor_discipline_witness:
  "reachable id (demo_env True [loop_L1, loop_L2]) \<and>
   single_loop_mode (demo_env True [loop_L1, loop_L2]) \<and>
   step id (demo_env True [loop_L1, loop_L2]) (Scalar 1) (trial_world [loop_L1, loop_L2]) =
     (Inr \<lparr>obs = replicate 6 (id 0), reward = 2, is_done = True, info = [(''runtime'', 3)]\<rparr>,
      (demo_env True [loop_L1, loop_L2])\<lparr>current_loop_idx := 1\<rparr>,
      (trial_world [loop_L1, loop_L2])
        \<lparr>actions_file := Some [(''L1'', [(''width'', JInt 2)])],
         launched := launched (trial_world [loop_L1, loop_L2]) @
           map (\<lambda>c. (c, Some [(''L1'', [(''width'', JInt 2)])])) (stage_cmds ''benchmark.ll'' ''./a.out''),
         clock_reads := 4\<rparr>) \<and>
   current_loop_idx ((demo_env True [loop_L1, loop_L2])\<lparr>current_loop_idx := 1\<rparr>) =
     current_loop_idx (demo_env True [loop_L1, loop_L2]) + 1 \<and>
   reachable id ((demo_env True [loop_L1, loop_L2])\<lparr>current_loop_idx := 1\<rparr>) \<and>
   current_loop_idx (snd (reset id ((demo_env True [loop_L1, loop_L2])\<lparr>current_loop_idx := 1\<rparr>))) = 0 \<and>
   current_loop_idx ((demo_env True [loop_L1, loop_L2])\<lparr>current_loop_idx := 1\<rparr>) \<le>
     n_loops ((demo_env True [loop_L1, loop_L2])\<lparr>current_loop_idx := 1\<rparr>)"
proof -
  have r0: "reachable id (demo_env True [loop_L1, loop_L2])" by (rule reachable_demo)
  have m: "single_loop_mode (demo_env True [loop_L1, loop_L2])" by (simp add: demo_env_def)
  note s = step_demo_single[of id "[loop_L2]"]
  have r1: "reachable id ((demo_env True [loop_L1, loop_L2])\<lparr>current_loop_idx := 1\<rparr>)"
    by (rule reach_step[OF r0 s])
  from cursor_discipline[OF r0] m s
  have inc: "current_loop_idx ((demo_env True [loop_L1, loop_L2])\<lparr>current_loop_idx := 1\<rparr>) =
     current_loop_idx (demo_env True [loop_L1, loop_L2]) + 1" by blast
  from cursor_discipline[OF r1]
  have z: "current_loop_idx (snd (reset id ((demo_env True [loop_L1, loop_L2])\<lparr>current_loop_idx := 1\<rparr>))) = 0"
    and le: "current_loop_idx ((demo_env True [loop_L1, loop_L2])\<lparr>current_loop_idx := 1\<rparr>) \<le>
     n_loops ((demo_env True [loop_L1, loop_L2])\<lparr>current_loop_idx := 1\<rparr>)"
    by blast+
  from r0 m s inc r1 z le show ?thesis by blast
qed

text \<open>
  C10. In single-loop mode, in a reachable state whose cursor is not below \<open>n_loops\<close> (after
  as many returning steps as there are loops, or from the start when no loop was loaded),
  \<open>step\<close> raises \<open>IndexError\<close>, whatever the action: the object is as it was, and so is
  the world: \<open>loop_actions.json\<close> is not written and no child process is started.
\<close>

theorem step_out_of_range:
  assumes "reachable f32 e" and "single_loop_mode e" and "\<not> current_loop_idx e < n_loops e"
  shows "step f32 e act w = (Inl IndexError, e, w)"
proof -
  have "n_loops e = length (loops e)" using reachable_inv[OF assms(1)] by simp
  with assms(2,3) show ?thesis by (simp add: step_def py_index_def)
qed

theorem step_out_of_range_witness:
  "reachable id (demo_env True []) \<and> single_loop_mode (demo_env True []) \<and>
   \<not> current_loop_idx (demo_env True []) < n_loops (demo_env True []) \<and>
   step id (demo_env True []) (Scalar 1) (trial_world []) = (Inl IndexError, demo_env True [], trial_world []) \<and>
   reachable id ((demo_env True [loop_L1])\<lparr>current_loop_idx := 1\<rparr>) \<and>
   single_loop_mode ((demo_env True [loop_L1])\<lparr>current_loop_idx := 1\<rparr>) \<and>
   \<not> current_loop_idx ((demo_env True [loop_L1])\<lparr>current_loop_idx := 1\<rparr>) <
       n_loops ((demo_env True [loop_L1])\<lparr>current_loop_idx := 1\<rparr>) \<and>
   step id ((demo_env True [loop_L1])\<lparr>current_loop_idx := 1\<rparr>) (Scalar 1) (trial_world [loop_L1]) =
     (Inl IndexError, (demo_env True [loop_L1])\<lparr>current_loop_idx := 1\<rparr>, trial_world [loop_L1])"
proof -
  have r0: "reachable id (demo_env True [])" by (rule reachable_demo)
  have m0: "single_loop_mode (demo_env True [])" by (simp add: demo_env_def)
  have c0: "\<not> current_loop_idx (demo_env True []) < n_loops (demo_env True [])"
    by (simp add: demo_env_def)
  note s0 = step_out_of_range[OF r0 m0 c0, of "Scalar 1" "trial_world []"]
  have r1: "reachable id ((demo_env True [loop_L1])\<lparr>current_loop_idx := 1\<rparr>)"
    by (rule reach_step[OF reachable_demo step_demo_single[of id "[]"]])
  have m1: "single_loop_mode ((demo_env True [loop_L1])\<lparr>current_loop_idx := 1\<rparr>)"
    by (simp add: demo_env_def)
  have c1: "\<not> current_loop_idx ((demo_env True [loop_L1])\<lparr>current_loop_idx := 1\<rparr>) <
       n_loops ((demo_env True [loop_L1])\<lparr>current_loop_idx := 1\<rparr>)"
    by (simp add: demo_env_def)
  note s1 = step_out_of_range[OF r1 m1 c1, of "Scalar 1" "trial_world [loop_L1]"]
  from r0 m0 c0 s0 r1 m1 c1 s1 show ?thesis by blast
qed


text \<open>
  C9. In whole-program mode, in a reachable state where every record has a \<open>loop_id\<close> and
  no two records share one, a \<open>step\<close> with an action vector of exactly \<open>n_loops\<close> entries
  leaves in \<open>loop_actions.json\<close> a map of exactly \<open>n_loops\<close> entries, whose keys are the
  \<open>loop_id\<close>s of the records, in load order, none missing and none twice, each with the
  directive decoded from the entry of the vector at the same position. This holds whether
  the toolchain then succeeds or not, the file being written first.
\<close>

theorem whole_program_directive_map:
  assumes "reachable f32 e" and "\<not> single_loop_mode e"
    and "\<forall>l\<in>set (loops e). loop_id l \<noteq> None" and "distinct (map loop_id (loops e))"
    and "length v = n_loops e" and "step f32 e (Vector v) w = (res, e', w')"
  shows "\<exists>m. actions_file w' = Some m \<and> length m = n_loops e \<and>
             map (\<lambda>p. Some (fst p)) m = map loop_id (loops e) \<and> distinct (map fst m) \<and>
             map snd m = map (\<lambda>a. action_to_metadata (Scalar a)) v"
proof -
  let ?m = "zip (map (\<lambda>l. the (loop_id l)) (loops e)) (map (\<lambda>a. action_to_metadata (Scalar a)) v)"
  have n: "length v = length (loops e)" using reachable_inv[OF assms(1)] assms(5) by simp
  have "build_act_map (loops e) 0 v [] =
          Inr ([] @ zip (map (\<lambda>l. the (loop_id l)) (take (length v) (drop 0 (loops e))))
                        (map (\<lambda>a. action_to_metadata (Scalar a)) v))"
    using n by (intro build_act_map_zip[OF _ assms(3) assms(4)]) simp_all
  then have b: "build_act_map (loops e) 0 v [] = Inr ?m" using n by simp
  have fl: "actions_file w' = Some ?m"
    using step_whole_actions_file[OF assms(2) b, of f32 w] assms(6) by simp
  have len: "length ?m = n_loops e" using n assms(5) by simp
  have keys: "map fst ?m = map (\<lambda>l. the (loop_id l)) (loops e)" using n by simp
  have some: "map (\<lambda>p. Some (fst p)) ?m = map loop_id (loops e)"
  proof -
    have "map (\<lambda>p. Some (fst p)) ?m = map Some (map fst ?m)" by (simp only: map_map comp_def)
    also have "\<dots> = map (\<lambda>l. Some (the (loop_id l))) (loops e)" by (simp only: keys map_map comp_def)
    also have "\<dots> = map loop_id (loops e)" using assms(3) by (intro map_cong) auto
    finally show ?thesis .
  qed
  have "distinct (map Some (map fst ?m))"
    using some assms(4) by (simp only: map_map comp_def)
  then have dist: "distinct (map fst ?m)" by (rule distinct_map_SomeD)
  have vals: "map snd ?m = map (\<lambda>a. action_to_metadata (Scalar a)) v" using n by simp
  from fl len some dist vals show ?thesis by blast
qed

theorem whole_program_directive_map_witness:
  "reachable id (demo_env False [loop_L1, loop_L2]) \<and>
   \<not> single_loop_mode (demo_env False [loop_L1, loop_L2]) \<and>
   map loop_id (loops (demo_env False [loop_L1, loop_L2])) = [Some ''L1'', Some ''L2''] \<and>
   distinct (map loop_id (loops (demo_env False [loop_L1, loop_L2]))) \<and>
   length [3, 0 :: int] = n_loops (demo_env False [loop_L1, loop_L2]) \<and>
   actions_file (snd (snd (step id (demo_env False [loop_L1, loop_L2]) (Vector [3, 0])
                             (trial_world [loop_L1, loop_L2])))) =
     Some [(''L1'', [(''width'', JInt 8)]), (''L2'', [(''disable'', JBool True)])] \<and>
   (\<exists>m. Some [(''L1'', [(''width'', JInt 8)]), (''L2'', [(''disable'', JBool True)])] = Some m \<and>
        length m = n_loops (demo_env False [loop_L1, loop_L2]) \<and> distinct (map fst m))"
proof -
  have r: "reachable id (demo_env False [loop_L1, loop_L2])" by (rule reachable_demo)
  have m: "\<not> single_loop_mode (demo_env False [loop_L1, loop_L2])" by (simp add: demo_env_def)
  have ids: "\<forall>l\<in>set (loops (demo_env False [loop_L1, loop_L2])). loop_id l \<noteq> None"
    by (simp add: demo_env_def loop_L1_def loop_L2_def)
  have d: "distinct (map loop_id (loops (demo_env False [loop_L1, loop_L2])))"
    by (simp add: demo_env_def loop_L1_def loop_L2_def)
  have l: "length [3, 0 :: int] = n_loops (demo_env False [loop_L1, loop_L2])"
    by (simp add: demo_env_def)
  have ks: "map loop_id (loops (demo_env False [loop_L1, loop_L2])) = [Some ''L1'', Some ''L2'']"
    by (simp add: demo_env_def loop_L1_def loop_L2_def)
  note s = step_demo_whole[of id]
  have f: "actions_file (snd (snd (step id (demo_env False [loop_L1, loop_L2]) (Vector [3, 0])
                             (trial_world [loop_L1, loop_L2])))) =
     Some [(''L1'', [(''width'', JInt 8)]), (''L2'', [(''disable'', JBool True)])]"
    by (simp add: s)
  from whole_program_directive_map[OF r m ids d l s]
  have "\<exists>m. Some [(''L1'', [(''width'', JInt 8)]), (''L2'', [(''disable'', JBool True)])] = Some m \<and>
        length m = n_loops (demo_env False [loop_L1, loop_L2]) \<and> distinct (map fst m)"
    by (simp add: demo_env_def)
  with r m ks d l f show ?thesis by blast
qed


text \<open>
  C1. The baseline is meant to be the time of the unmodified program: the constructor's
  run of the toolchain is commented as the baseline run, \<open>run_binary\<close> documents that the
  pass reads \<open>loop_actions.json\<close> if present, and \<open>step\<close> writes that file before each of
  its own runs. The constructor does not: it neither writes an empty map nor removes the
  file. In a directory where an earlier session has left \<open>{"L1": {"width": 8}}\<close> in
  \<open>loop_actions.json\<close>, the construction succeeds and all four stages of the baseline run
  were started with that map in place, which is neither the empty map nor an absent file:
  the baseline is measured with a directive for \<open>L1\<close>, against the claim.
\<close>

theorem baseline_run_stale_directives:
  "fst (init ''benchmark.ll'' ''./a.out'' True stale_world) = Inr (demo_env True [loop_L1, loop_L2]) \<and>
   launched (snd (init ''benchmark.ll'' ''./a.out'' True stale_world)) =
     [(cmd_pass ''benchmark.ll'', Some [(''L1'', [(''width'', JInt 8)])]),
      (cmd_vec, Some [(''L1'', [(''width'', JInt 8)])]),
      (cmd_clang ''./a.out'', Some [(''L1'', [(''width'', JInt 8)])]),
      (cmd_run ''./a.out'', Some [(''L1'', [(''width'', JInt 8)])])] \<and>
   Some [(''L1'', [(''width'', JInt 8)])] \<noteq> Some ([] :: act_map) \<and>
   Some [(''L1'', [(''width'', JInt 8)])] \<noteq> (None :: act_map option)"
  by (simp add: init_def run_binary_unfold Let_def stale_world_def demo_world_def demo_env_def
      ok_status_def demo_clock_def)


text \<open>
  C7 (as the code has it). When \<open>open\<close> or \<open>json.load\<close> raises on \<open>loop_features.json\<close>
  (the file is missing, or its content is not JSON), the construction raises that very
  error (\<open>FileNotFoundError\<close>, \<open>JSONDecodeError\<close>), with no child process started and
  nothing written; no error of the program is a \<open>ConfigurationError\<close>. An empty collection
  is not rejected: in single-loop mode the construction goes on to the baseline run and,
  when the toolchain succeeds, returns an object with \<open>n_loops = 0\<close>.
\<close>

theorem init_feature_errors:
  "(features_file w = Inl err \<longrightarrow>
      init ir bp slm w = (Inl err, w) \<and> error_kind err \<noteq> ''ConfigurationError'') \<and>
   (features_file w = Inr [] \<longrightarrow> stages_ok w \<longrightarrow>
      (\<exists>e. fst (init ir bp True w) = Inr e \<and> loops e = [] \<and> n_loops e = 0 \<and> single_loop_mode e))"
proof -
  have k: "error_kind err \<noteq> ''ConfigurationError''" by (cases err) simp_all
  have a: "features_file w = Inl err \<longrightarrow>
      init ir bp slm w = (Inl err, w) \<and> error_kind err \<noteq> ''ConfigurationError''"
    using k by (simp add: init_def)
  have b: "features_file w = Inr [] \<longrightarrow> stages_ok w \<longrightarrow>
      (\<exists>e. fst (init ir bp True w) = Inr e \<and> loops e = [] \<and> n_loops e = 0 \<and> single_loop_mode e)"
    by (simp add: init_def Let_def run_binary_ok)
  from a b show ?thesis by blast
qed

theorem init_feature_errors_witness:
  "features_file missing_world = Inl FileNotFoundError \<and>
   init ''benchmark.ll'' ''./a.out'' True missing_world = (Inl FileNotFoundError, missing_world) \<and>
   features_file (demo_world []) = Inr [] \<and> stages_ok (demo_world []) \<and>
   (\<exists>e. fst (init ''benchmark.ll'' ''./a.out'' True (demo_world [])) = Inr e \<and> loops e = [] \<and>
        n_loops e = 0 \<and> single_loop_mode e)"
proof -
  have m: "features_file missing_world = Inl FileNotFoundError"
    by (simp add: missing_world_def)
  from init_feature_errors[of missing_world FileNotFoundError "''benchmark.ll''" "''./a.out''" True] m
  have i: "init ''benchmark.ll'' ''./a.out'' True missing_world = (Inl FileNotFoundError, missing_world)"
    by blast
  have f: "features_file (demo_world []) = Inr []" by (simp add: demo_world_def)
  have ok: "stages_ok (demo_world [])" by (simp add: stages_ok_def demo_world_def ok_status_def)
  from init_feature_errors[of "demo_world []" err "''benchmark.ll''" "''./a.out''" slm] f ok
  have e: "\<exists>e. fst (init ''benchmark.ll'' ''./a.out'' True (demo_world [])) = Inr e \<and> loops e = [] \<and>
        n_loops e = 0 \<and> single_loop_mode e"
    by blast
  from m i f ok e show ?thesis by blast
qed

text \<open>
  The claim as the specification words it fails twice: an empty feature collection is
  accepted, and a missing file surfaces as \<open>FileNotFoundError\<close>.
\<close>

theorem empty_features_accepted_counterexample:
  "fst (init ''benchmark.ll'' ''./a.out'' True (demo_world [])) = Inr (demo_env True []) \<and>
   n_loops (demo_env True []) = 0 \<and>
   fst (init ''benchmark.ll'' ''./a.out'' True missing_world) = Inl FileNotFoundError \<and>
   error_kind FileNotFoundError \<noteq> ''ConfigurationError''"
  by (simp add: init_demo) (simp add: init_def missing_world_def demo_env_def)

text \<open>
  C8 (as the code has it). A non-zero exit status in any of the four stages, the run of
  the measured program included, raises \<open>CalledProcessError\<close>, one and the same kind of
  error for all four. It carries the exit status and the command line of the failing
  stage, not a stage name; the four command lines are pairwise different, so the stage can
  be told from it. The stages after the failing one are not started and none is started
  twice. A \<open>step\<close> whose toolchain run fails raises (that error, unless it had already
  raised before reaching the toolchain), returns no reward and leaves the object as it was.
\<close>

theorem toolchain_failure:
  assumes "first_failure w = Some j"
  shows "j < 4 \<and>
         fst (run_binary bp ir tag w) =
           Inl (CalledProcessError (exit_status w (length (launched w) + j)) (stage_cmds ir bp ! j)) \<and>
         exit_status w (length (launched w) + j) \<noteq> 0 \<and>
         error_kind (CalledProcessError (exit_status w (length (launched w) + j)) (stage_cmds ir bp ! j)) =
           ''CalledProcessError'' \<and>
         launched (snd (run_binary bp ir tag w)) =
           launched w @ map (\<lambda>c. (c, actions_file w)) (take (Suc j) (stage_cmds ir bp)) \<and>
         distinct (stage_cmds ir bp) \<and>
         (\<forall>res e' w'. step f32 e act w = (res, e', w') \<longrightarrow>
            e' = e \<and>
            (res = Inl (CalledProcessError (exit_status w (length (launched w) + j))
                          (stage_cmds (ir_path e) (binary_path e) ! j)) \<or>
             res = Inl IndexError \<or> res = Inl (KeyError ''loop_id'') \<or> res = Inl TypeError))"
proof -
  note rf = run_binary_fail[OF assms, of bp ir tag]
  have nz: "exit_status w (length (launched w) + j) \<noteq> 0"
    using first_failure_cases[OF assms] by (auto simp: numeral_2_eq_2 numeral_3_eq_3)
  have st: "\<forall>res e' w'. step f32 e act w = (res, e', w') \<longrightarrow>
            e' = e \<and>
            (res = Inl (CalledProcessError (exit_status w (length (launched w) + j))
                          (stage_cmds (ir_path e) (binary_path e) ! j)) \<or>
             res = Inl IndexError \<or> res = Inl (KeyError ''loop_id'') \<or> res = Inl TypeError)"
  proof (intro allI impI)
    fix res e' w'
    assume s: "step f32 e act w = (res, e', w')"
    have run: "\<And>m. \<exists>w2. run_binary (binary_path e) (ir_path e) ''trial'' (write_actions m w) =
        (Inl (CalledProcessError (exit_status w (length (launched w) + j))
               (stage_cmds (ir_path e) (binary_path e) ! j)), w2)"
    proof -
      fix m
      have ff: "first_failure (write_actions m w) = Some j"
        using assms by (simp add: first_failure_write_actions)
      from run_binary_fail[OF ff, of "binary_path e" "ir_path e" "''trial''"]
      have "fst (run_binary (binary_path e) (ir_path e) ''trial'' (write_actions m w)) =
        Inl (CalledProcessError (exit_status w (length (launched w) + j))
               (stage_cmds (ir_path e) (binary_path e) ! j))"
        by (simp add: write_actions_def)
      then show "\<exists>w2. run_binary (binary_path e) (ir_path e) ''trial'' (write_actions m w) =
        (Inl (CalledProcessError (exit_status w (length (launched w) + j))
               (stage_cmds (ir_path e) (binary_path e) ! j)), w2)"
        by (cases "run_binary (binary_path e) (ir_path e) ''trial'' (write_actions m w)") simp
    qed
    show "e' = e \<and>
            (res = Inl (CalledProcessError (exit_status w (length (launched w) + j))
                          (stage_cmds (ir_path e) (binary_path e) ! j)) \<or>
             res = Inl IndexError \<or> res = Inl (KeyError ''loop_id'') \<or> res = Inl TypeError)"
    proof (cases "single_loop_mode e")
      case True
      show ?thesis
      proof (cases "py_index (loops e) (current_loop_idx e)")
        case (Inl err)
        then have "err = IndexError" by (simp add: py_index_def split: if_splits)
        with Inl True s show ?thesis by (simp add: step_def)
      next
        case (Inr l)
        show ?thesis
        proof (cases "get_loop_id l")
          case (Inl err)
          then have "err = KeyError ''loop_id''" by (simp add: get_loop_id_def split: option.splits)
          with Inl Inr True s show ?thesis by (simp add: step_def)
        next
          case (Inr k)
          from run[of "AList.update k (action_to_metadata act) []"] obtain w2 where
            "run_binary (binary_path e) (ir_path e) ''trial''
               (write_actions (AList.update k (action_to_metadata act) []) w) =
             (Inl (CalledProcessError (exit_status w (length (launched w) + j))
               (stage_cmds (ir_path e) (binary_path e) ! j)), w2)" by blast
          with Inr \<open>py_index (loops e) (current_loop_idx e) = Inr l\<close> True s
          show ?thesis by (auto simp: step_def Let_def simp del: AList.update.simps)
        qed
      qed
    next
      case False
      show ?thesis
      proof (cases act)
        case (Scalar a)
        with False s show ?thesis by (simp add: step_def)
      next
        case (Vector v)
        show ?thesis
        proof (cases "build_act_map (loops e) 0 v []")
          case (Inl err)
          have "err = IndexError \<or> err = KeyError ''loop_id''"
            using Inl by (rule build_act_map_errors)
          with Inl Vector False s show ?thesis by (auto simp: step_def)
        next
          case (Inr m)
          from run[of m] obtain w2 where
            "run_binary (binary_path e) (ir_path e) ''trial'' (write_actions m w) =
             (Inl (CalledProcessError (exit_status w (length (launched w) + j))
               (stage_cmds (ir_path e) (binary_path e) ! j)), w2)" by blast
          with Inr Vector False s show ?thesis by (auto simp: step_def Let_def)
        qed
      qed
    qed
  qed
  from rf nz st distinct_stage_cmds[of ir bp] show ?thesis by simp
qed


theorem toolchain_failure_witness:
  "first_failure ((trial_world [loop_L1, loop_L2])\<lparr>exit_status := fail_at 5\<rparr>) = Some 1 \<and>
   (1::nat) < 4 \<and>
   fst (run_binary ''./a.out'' ''benchmark.ll'' ''trial''
          ((trial_world [loop_L1, loop_L2])\<lparr>exit_status := fail_at 5\<rparr>)) =
     Inl (CalledProcessError 1 cmd_vec) \<and>
   map fst (launched (snd (run_binary ''./a.out'' ''benchmark.ll'' ''trial''
          ((trial_world [loop_L1, loop_L2])\<lparr>exit_status := fail_at 5\<rparr>)))) =
     stage_cmds ''benchmark.ll'' ''./a.out'' @ [cmd_pass ''benchmark.ll'', cmd_vec] \<and>
   step id (demo_env True [loop_L1, loop_L2]) (Scalar 1)
        ((trial_world [loop_L1, loop_L2])\<lparr>exit_status := fail_at 5\<rparr>) =
     (Inl (CalledProcessError 1 cmd_vec), demo_env True [loop_L1, loop_L2],
      (trial_world [loop_L1, loop_L2])
        \<lparr>exit_status := fail_at 5,
         actions_file := Some [(''L1'', [(''width'', JInt 2)])],
         launched := launched (trial_world [loop_L1, loop_L2]) @
           [(cmd_pass ''benchmark.ll'', Some [(''L1'', [(''width'', JInt 2)])]),
            (cmd_vec, Some [(''L1'', [(''width'', JInt 2)])])]\<rparr>)"
proof -
  let ?w = "(trial_world [loop_L1, loop_L2])\<lparr>exit_status := fail_at 5\<rparr>"
  have ff: "first_failure ?w = Some 1"
    by (simp add: first_failure_def trial_world_def demo_world_def stage_cmds_def fail_at_def Let_def)
  note t = toolchain_failure[OF ff, of "''./a.out''" "''benchmark.ll''" "''trial''" id
      "demo_env True [loop_L1, loop_L2]" "Scalar 1"]
  from t have lt: "(1::nat) < 4" by blast
  from t have "fst (run_binary ''./a.out'' ''benchmark.ll'' ''trial'' ?w) =
     Inl (CalledProcessError (exit_status ?w (length (launched ?w) + 1))
            (stage_cmds ''benchmark.ll'' ''./a.out'' ! 1))" by blast
  then have r: "fst (run_binary ''./a.out'' ''benchmark.ll'' ''trial'' ?w) =
     Inl (CalledProcessError 1 cmd_vec)"
    by (simp add: trial_world_def demo_world_def stage_cmds_def fail_at_def)
  from t have "launched (snd (run_binary ''./a.out'' ''benchmark.ll'' ''trial'' ?w)) =
     launched ?w @ map (\<lambda>c. (c, actions_file ?w)) (take (Suc 1) (stage_cmds ''benchmark.ll'' ''./a.out''))"
    by blast
  then have l: "map fst (launched (snd (run_binary ''./a.out'' ''benchmark.ll'' ''trial'' ?w))) =
     stage_cmds ''benchmark.ll'' ''./a.out'' @ [cmd_pass ''benchmark.ll'', cmd_vec]"
    by (simp add: trial_world_def demo_world_def stage_cmds_def comp_def)
  have s: "step id (demo_env True [loop_L1, loop_L2]) (Scalar 1) ?w =
     (Inl (CalledProcessError 1 cmd_vec), demo_env True [loop_L1, loop_L2],
      (trial_world [loop_L1, loop_L2])
        \<lparr>exit_status := fail_at 5,
         actions_file := Some [(''L1'', [(''width'', JInt 2)])],
         launched := launched (trial_world [loop_L1, loop_L2]) @
           [(cmd_pass ''benchmark.ll'', Some [(''L1'', [(''width'', JInt 2)])]),
            (cmd_vec, Some [(''L1'', [(''width'', JInt 2)])])]\<rparr>)"
    by (simp add: step_def run_binary_unfold Let_def demo_world_def demo_env_def trial_world_def
      stage_cmds_def fail_at_def py_index_def get_loop_id_def loop_L1_def write_actions_def)
  from ff lt r l s show ?thesis by blast
qed

text \<open>
  The claim as the specification words it, with a kind of error for the measured program
  apart from the kind for the three stages before it, fails: when the binary exits with
  status 1 and when the pass exits with status 1, the error raised is of the same kind,
  and what it carries is the command line.
\<close>

theorem execution_error_same_kind_counterexample:
  "fst (run_binary ''./a.out'' ''benchmark.ll'' ''trial''
          ((demo_world [loop_L1, loop_L2])\<lparr>exit_status := fail_at 3\<rparr>)) =
     Inl (CalledProcessError 1 [''././a.out'']) \<and>
   fst (run_binary ''./a.out'' ''benchmark.ll'' ''trial''
          ((demo_world [loop_L1, loop_L2])\<lparr>exit_status := fail_at 0\<rparr>)) =
     Inl (CalledProcessError 1 [''opt'', ''-load-pass-plugin=./LoopRLOpt.so'', ''-passes=loop-rl-opt'',
                                ''benchmark.ll'', ''-S'', ''-o'', ''tmp_opt.ll'']) \<and>
   error_kind (CalledProcessError 1 [''././a.out'']) =
   error_kind (CalledProcessError 1 [''opt'', ''-load-pass-plugin=./LoopRLOpt.so'', ''-passes=loop-rl-opt'',
                                ''benchmark.ll'', ''-S'', ''-o'', ''tmp_opt.ll''])"
  by (simp add: run_binary_unfold Let_def demo_world_def fail_at_def cmd_pass_def cmd_run_def)


end
